theory Spec2Isabelle
  imports Complex_Main
begin

section \<open>The JavaScript values the handlers compute with\<close>

text \<open>
  The servers are Express handlers written in JavaScript. Request bodies arrive as parsed
  JSON and query or route parameters as strings, and the handlers lean on the language's
  coercions (\<^verbatim>\<open>!x\<close>, \<^verbatim>\<open>x < 1\<close>, \<^verbatim>\<open>parseInt(x)\<close>,
  \<^verbatim>\<open>x === y\<close>). These are embedded here for the primitive values.

  Idealisations, fixed once: a finite number is an exact rational (no rounding to a binary
  double, no negative zero); a string is a list of 8-bit characters, so only the ASCII white
  space and letters are known to \<open>trim\<close> and \<open>toLowerCase\<close>; arrays and objects in a
  request body, whose equality is reference identity, are outside the model.
\<close>

datatype jsnum = NaN | Fin rat | PInf | NInf

datatype jsval = JUndefined | JNull | JBool bool | JNum jsnum | JStr string

abbreviation num :: "int \<Rightarrow> jsnum" where
  "num i \<equiv> Fin (of_int i)"

subsection \<open>Number arithmetic\<close>

fun num_neg :: "jsnum \<Rightarrow> jsnum" where
  "num_neg NaN = NaN"
| "num_neg (Fin x) = Fin (- x)"
| "num_neg PInf = NInf"
| "num_neg NInf = PInf"

fun num_add :: "jsnum \<Rightarrow> jsnum \<Rightarrow> jsnum" where
  "num_add NaN _ = NaN"
| "num_add _ NaN = NaN"
| "num_add (Fin x) (Fin y) = Fin (x + y)"
| "num_add PInf NInf = NaN"
| "num_add NInf PInf = NaN"
| "num_add PInf _ = PInf"
| "num_add _ PInf = PInf"
| "num_add NInf _ = NInf"
| "num_add _ NInf = NInf"

definition num_sub :: "jsnum \<Rightarrow> jsnum \<Rightarrow> jsnum" where
  "num_sub a b = num_add a (num_neg b)"

text \<open>The sign of a number that is not \<open>NaN\<close>: \<open>-1\<close>, \<open>0\<close> or \<open>1\<close>.\<close>

fun num_sgn :: "jsnum \<Rightarrow> int" where
  "num_sgn NaN = 0"
| "num_sgn (Fin x) = (if x < 0 then - 1 else if x = 0 then 0 else 1)"
| "num_sgn PInf = 1"
| "num_sgn NInf = - 1"

definition inf_of_sign :: "int \<Rightarrow> jsnum" where
  "inf_of_sign s = (if s = 0 then NaN else if s < 0 then NInf else PInf)"

fun num_mul :: "jsnum \<Rightarrow> jsnum \<Rightarrow> jsnum" where
  "num_mul NaN _ = NaN"
| "num_mul _ NaN = NaN"
| "num_mul (Fin x) (Fin y) = Fin (x * y)"
| "num_mul a b = inf_of_sign (num_sgn a * num_sgn b)"

text \<open>
  Division. A finite dividend over zero is an infinity of the dividend's sign (the zero
  divisor is taken as positive zero), and zero over zero is \<open>NaN\<close>.
\<close>

fun num_div :: "jsnum \<Rightarrow> jsnum \<Rightarrow> jsnum" where
  "num_div NaN _ = NaN"
| "num_div _ NaN = NaN"
| "num_div (Fin x) (Fin y) = (if y = 0 then inf_of_sign (num_sgn (Fin x)) else Fin (x / y))"
| "num_div (Fin x) _ = Fin 0"
| "num_div a (Fin y) = inf_of_sign (num_sgn a * (if y < 0 then - 1 else 1))"
| "num_div _ _ = NaN"

text \<open>\<^verbatim>\<open>a < b\<close> on numbers: every comparison with \<open>NaN\<close> is false.\<close>

fun num_lt :: "jsnum \<Rightarrow> jsnum \<Rightarrow> bool" where
  "num_lt NaN _ = False"
| "num_lt _ NaN = False"
| "num_lt (Fin x) (Fin y) = (x < y)"
| "num_lt NInf NInf = False"
| "num_lt NInf _ = True"
| "num_lt _ NInf = False"
| "num_lt PInf _ = False"
| "num_lt _ PInf = True"

text \<open>\<^verbatim>\<open>Math.ceil\<close>.\<close>

fun math_ceil :: "jsnum \<Rightarrow> jsnum" where
  "math_ceil (Fin x) = num \<lceil>x\<rceil>"
| "math_ceil a = a"

subsection \<open>Strings\<close>

text \<open>White space and line terminators of the ASCII range: TAB, LF, VT, FF, CR, SP.\<close>

definition is_ws :: "char \<Rightarrow> bool" where
  "is_ws c = (of_char c \<in> {9, 10, 11, 12, 13, 32 :: nat})"

definition trim_start :: "string \<Rightarrow> string" where
  "trim_start s = dropWhile is_ws s"

text \<open>\<^verbatim>\<open>String.prototype.trim\<close>.\<close>

definition trim :: "string \<Rightarrow> string" where
  "trim s = rev (dropWhile is_ws (rev (dropWhile is_ws s)))"

text \<open>\<^verbatim>\<open>String.prototype.toLowerCase\<close>, on the letters A to Z.\<close>

definition lower_char :: "char \<Rightarrow> char" where
  "lower_char c =
     (if 65 \<le> (of_char c :: nat) \<and> (of_char c :: nat) \<le> 90 then char_of (of_char c + 32 :: nat) else c)"

definition toLowerCase :: "string \<Rightarrow> string" where
  "toLowerCase s = map lower_char s"

fun starts_with :: "string \<Rightarrow> string \<Rightarrow> bool" where
  "starts_with s [] = True"
| "starts_with [] (p # ps) = False"
| "starts_with (c # cs) (p # ps) = (c = p \<and> starts_with cs ps)"

text \<open>\<^verbatim>\<open>s.includes(t)\<close>: \<open>t\<close> occurs in \<open>s\<close> as a contiguous run.\<close>

fun str_includes :: "string \<Rightarrow> string \<Rightarrow> bool" where
  "str_includes [] t = (t = [])"
| "str_includes (c # cs) t = (starts_with (c # cs) t \<or> str_includes cs t)"

subsection \<open>Digits\<close>

text \<open>The value of a character as a digit of the given radix, if it is one.\<close>

definition digit_of :: "nat \<Rightarrow> char \<Rightarrow> nat option" where
  "digit_of radix c =
     (let k = (of_char c :: nat);
          v = (if 48 \<le> k \<and> k \<le> 57 then Some (k - 48)
               else if 97 \<le> k \<and> k \<le> 122 then Some (k - 87)
               else if 65 \<le> k \<and> k \<le> 90 then Some (k - 55)
               else None)
      in case v of None \<Rightarrow> None | Some d \<Rightarrow> if d < radix then Some d else None)"

definition is_digit :: "nat \<Rightarrow> char \<Rightarrow> bool" where
  "is_digit radix c = (digit_of radix c \<noteq> None)"

text \<open>The number a run of digits writes, most significant digit first.\<close>

definition digits_value :: "nat \<Rightarrow> string \<Rightarrow> nat" where
  "digits_value radix ds = foldl (\<lambda>acc c. acc * radix + (case digit_of radix c of None \<Rightarrow> 0 | Some d \<Rightarrow> d)) 0 ds"

subsection \<open>Strings read as numbers\<close>

definition scale10 :: "rat \<Rightarrow> int \<Rightarrow> rat" where
  "scale10 x e = (if 0 \<le> e then x * 10 ^ nat e else x / 10 ^ nat (- e))"

text \<open>
  The exponent part of a decimal literal, which must reach the end of the string: absent,
  or \<open>e\<close> or \<open>E\<close>, an optional sign and at least one digit.
\<close>

definition parse_exponent :: "string \<Rightarrow> int option" where
  "parse_exponent s =
     (case s of
        [] \<Rightarrow> Some 0
      | c # cs \<Rightarrow>
          if c = CHR ''e'' \<or> c = CHR ''E'' then
            (let neg = starts_with cs ''-'';
                 ds = (if starts_with cs ''-'' \<or> starts_with cs ''+'' then tl cs else cs)
             in if ds \<noteq> [] \<and> list_all (is_digit 10) ds
                then Some ((if neg then - 1 else 1) * int (digits_value 10 ds))
                else None)
          else None)"

text \<open>
  An unsigned decimal literal: \<open>Infinity\<close>, or digits with an optional fraction and an
  optional exponent, with at least one digit before or after the point.
\<close>

definition parse_unsigned_decimal :: "string \<Rightarrow> jsnum option" where
  "parse_unsigned_decimal s =
     (if s = ''Infinity'' then Some PInf
      else
        let ip = takeWhile (is_digit 10) s;
            r1 = dropWhile (is_digit 10) s;
            point = starts_with r1 ''.'';
            fp = (if point then takeWhile (is_digit 10) (tl r1) else []);
            r2 = (if point then dropWhile (is_digit 10) (tl r1) else r1)
        in if ip = [] \<and> fp = [] then None
           else case parse_exponent r2 of
                  None \<Rightarrow> None
                | Some e \<Rightarrow>
                    Some (Fin (scale10 (of_nat (digits_value 10 ip)
                                        + of_nat (digits_value 10 fp) / 10 ^ length fp) e)))"

text \<open>A hexadecimal, octal or binary integer literal; it takes no sign.\<close>

definition parse_nondecimal :: "string \<Rightarrow> jsnum option" where
  "parse_nondecimal s =
     (case s of
        z # p # ds \<Rightarrow>
          (let radix = (if p = CHR ''x'' \<or> p = CHR ''X'' then 16
                        else if p = CHR ''o'' \<or> p = CHR ''O'' then 8
                        else if p = CHR ''b'' \<or> p = CHR ''B'' then 2
                        else 0 :: nat)
           in if z = CHR ''0'' \<and> radix \<noteq> 0 \<and> ds \<noteq> [] \<and> list_all (is_digit radix) ds
              then Some (Fin (of_nat (digits_value radix ds)))
              else None)
      | _ \<Rightarrow> None)"

text \<open>
  The conversion of a string to a number (\<^verbatim>\<open>Number(s)\<close>, and what \<^verbatim>\<open>s - 1\<close>,
  \<^verbatim>\<open>s * t\<close> and \<^verbatim>\<open>s < 1\<close> apply to a string operand): white space is trimmed, the
  empty string is \<open>0\<close>, and anything that is not a numeric literal as a whole is \<open>NaN\<close>.
\<close>

definition str_to_number :: "string \<Rightarrow> jsnum" where
  "str_to_number s =
     (let t = trim s
      in if t = [] then Fin 0
         else case parse_nondecimal t of
                Some n \<Rightarrow> n
              | None \<Rightarrow>
                  (case (if starts_with t ''-'' then map_option num_neg (parse_unsigned_decimal (tl t))
                         else if starts_with t ''+'' then parse_unsigned_decimal (tl t)
                         else parse_unsigned_decimal t) of
                     None \<Rightarrow> NaN
                   | Some n \<Rightarrow> n))"

text \<open>
  \<^verbatim>\<open>parseInt(s)\<close> with no radix: leading white space and a sign are skipped, a
  \<open>0x\<close> prefix selects radix 16, and the longest run of digits that follows is read;
  whatever comes after the run is ignored, and an empty run gives \<open>NaN\<close>.
\<close>

definition parse_int_str :: "string \<Rightarrow> jsnum" where
  "parse_int_str s =
     (let s1 = trim_start s;
          neg = starts_with s1 ''-'';
          s2 = (if starts_with s1 ''-'' \<or> starts_with s1 ''+'' then tl s1 else s1);
          hex = (starts_with s2 ''0x'' \<or> starts_with s2 ''0X'');
          radix = (if hex then 16 else 10);
          s3 = (if hex then drop 2 s2 else s2);
          z = takeWhile (is_digit radix) s3
      in if z = [] then NaN else num ((if neg then - 1 else 1) * int (digits_value radix z)))"

text \<open>
  \<^verbatim>\<open>parseInt(x)\<close> on a number reads the number's string form. From \<open>1/10^6\<close> up to
  \<open>10^21\<close> that form is positional, so the result is the number truncated towards zero;
  outside it is exponent notation, of which \<open>parseInt\<close> reads the leading digit only.
\<close>

fun leading_digit :: "nat \<Rightarrow> nat" where
  "leading_digit n = (if n < 10 then n else leading_digit (n div 10))"

function first_digit :: "nat \<Rightarrow> nat \<Rightarrow> nat" where
  "first_digit p q = (if p = 0 \<or> q \<le> p then leading_digit (p div q) else first_digit (10 * p) q)"
  by pat_completeness auto
termination
  by (relation "measure (\<lambda>(p, q). q - p)") auto

declare leading_digit.simps [simp del] first_digit.simps [simp del]

definition math_trunc :: "rat \<Rightarrow> int" where
  "math_trunc x = (if x < 0 then - \<lfloor>- x\<rfloor> else \<lfloor>x\<rfloor>)"

fun parse_int_num :: "jsnum \<Rightarrow> jsnum" where
  "parse_int_num (Fin x) =
     (if x = 0 then Fin 0
      else if 10 ^ 21 \<le> \<bar>x\<bar> \<or> \<bar>x\<bar> < 1 / 10 ^ 6
      then (let (p, q) = quotient_of \<bar>x\<bar>
            in num ((if x < 0 then - 1 else 1) * int (first_digit (nat p) (nat q))))
      else num (math_trunc x))"
| "parse_int_num _ = NaN"

subsection \<open>Coercions of values\<close>

text \<open>\<^verbatim>\<open>!v\<close> is \<open>\<not> truthy v\<close>.\<close>

fun truthy :: "jsval \<Rightarrow> bool" where
  "truthy JUndefined = False"
| "truthy JNull = False"
| "truthy (JBool b) = b"
| "truthy (JNum NaN) = False"
| "truthy (JNum (Fin x)) = (x \<noteq> 0)"
| "truthy (JNum _) = True"
| "truthy (JStr s) = (s \<noteq> [])"

fun to_number :: "jsval \<Rightarrow> jsnum" where
  "to_number JUndefined = NaN"
| "to_number JNull = Fin 0"
| "to_number (JBool b) = (if b then Fin 1 else Fin 0)"
| "to_number (JNum n) = n"
| "to_number (JStr s) = str_to_number s"

text \<open>\<^verbatim>\<open>parseInt(v)\<close>: the strings of \<open>undefined\<close>, \<open>null\<close>, \<open>true\<close> and \<open>false\<close> hold no digit.\<close>

fun parseInt :: "jsval \<Rightarrow> jsnum" where
  "parseInt (JStr s) = parse_int_str s"
| "parseInt (JNum n) = parse_int_num n"
| "parseInt _ = NaN"

text \<open>\<^verbatim>\<open>a === b\<close> on primitive values; \<open>NaN\<close> is not equal to itself.\<close>

definition strict_eq :: "jsval \<Rightarrow> jsval \<Rightarrow> bool" where
  "strict_eq a b = (a = b \<and> a \<noteq> JNum NaN)"

definition num_eq :: "jsnum \<Rightarrow> jsnum \<Rightarrow> bool" where
  "num_eq a b = (a = b \<and> a \<noteq> NaN)"

text \<open>\<^verbatim>\<open>v < n\<close> and \<^verbatim>\<open>v > n\<close> against a number \<open>n\<close>: the value is converted to a number.\<close>

definition js_lt :: "jsval \<Rightarrow> jsnum \<Rightarrow> bool" where
  "js_lt v n = num_lt (to_number v) n"

definition js_gt :: "jsval \<Rightarrow> jsnum \<Rightarrow> bool" where
  "js_gt v n = num_lt n (to_number v)"

subsection \<open>Arrays\<close>

text \<open>
  \<^verbatim>\<open>xs.slice(start, end)\<close>. An index is truncated to an integer (\<open>NaN\<close> is \<open>0\<close>), a
  negative one counts from the end, and both are clamped to the length.
\<close>

definition rel_index :: "nat \<Rightarrow> jsnum \<Rightarrow> nat" where
  "rel_index len a =
     (case a of
        NaN \<Rightarrow> 0
      | NInf \<Rightarrow> 0
      | PInf \<Rightarrow> len
      | Fin x \<Rightarrow> if math_trunc x < 0 then nat (max (int len + math_trunc x) 0)
                 else nat (min (math_trunc x) (int len)))"

definition slice :: "'a list \<Rightarrow> jsnum \<Rightarrow> jsnum \<Rightarrow> 'a list" where
  "slice xs start end =
     (let k = rel_index (length xs) start; final = rel_index (length xs) end
      in take (final - k) (drop k xs))"

text \<open>
  \<^verbatim>\<open>xs.sort(cmp)\<close> is a stable sort: \<open>a\<close> goes before \<open>b\<close> when \<open>cmp a b\<close> is
  negative, and elements that compare as equal (or as \<open>NaN\<close>) keep their order. For a
  comparator that is a consistent ordering every stable sort returns this list.
\<close>

fun insort_cmp :: "('a \<Rightarrow> 'a \<Rightarrow> jsnum) \<Rightarrow> 'a \<Rightarrow> 'a list \<Rightarrow> 'a list" where
  "insort_cmp cmp x [] = [x]"
| "insort_cmp cmp x (y # ys) =
     (if num_lt (cmp y x) (Fin 0) then y # insort_cmp cmp x ys else x # y # ys)"

definition js_sort :: "('a \<Rightarrow> 'a \<Rightarrow> jsnum) \<Rightarrow> 'a list \<Rightarrow> 'a list" where
  "js_sort cmp xs = foldr (insort_cmp cmp) xs []"

text \<open>\<^verbatim>\<open>xs.findIndex(p)\<close>, with \<open>None\<close> for \<open>-1\<close>.\<close>

fun findIndex :: "('a \<Rightarrow> bool) \<Rightarrow> 'a list \<Rightarrow> nat option" where
  "findIndex p [] = None"
| "findIndex p (x # xs) = (if p x then Some 0 else map_option Suc (findIndex p xs))"

subsection \<open>Numbers written with one decimal\<close>

function dec :: "nat \<Rightarrow> string" where
  "dec n = (if n < 10 then [char_of (48 + n)] else dec (n div 10) @ [char_of (48 + n mod 10)])"
  by pat_completeness auto
termination
  by (relation "measure id") auto

declare dec.simps [simp del]

text \<open>
  \<^verbatim>\<open>x.toFixed(1)\<close>: the tenth nearest to \<open>x\<close>, the one further from zero on a tie,
  written with one decimal. From \<open>10^21\<close> on JavaScript writes the exponent notation of
  the binary double instead, which exact rationals do not determine: \<open>None\<close> stands for
  that form.
\<close>

definition tenths :: "rat \<Rightarrow> nat" where
  "tenths x = nat \<lfloor>\<bar>x\<bar> * 10 + 1 / 2\<rfloor>"

definition one_decimal :: "nat \<Rightarrow> string" where
  "one_decimal n = dec (n div 10) @ ''.'' @ dec (n mod 10)"

fun toFixed1 :: "jsnum \<Rightarrow> string option" where
  "toFixed1 NaN = Some ''NaN''"
| "toFixed1 PInf = Some ''Infinity''"
| "toFixed1 NInf = Some ''-Infinity''"
| "toFixed1 (Fin x) =
     (if 10 ^ 21 \<le> \<bar>x\<bar> then None
      else Some ((if x < 0 then ''-'' else []) @ one_decimal (tenths x)))"

section \<open>The in-memory server\<close>

text \<open>
  The first server keeps two global arrays, \<^verbatim>\<open>movies\<close> and \<^verbatim>\<open>reviews\<close>, and its
  handlers read and write them directly. A handler is a function of the request and the
  state; one that writes returns the new state next to its response.
\<close>

subsection \<open>Data\<close>

text \<open>
  The fields carry the source's names behind \<open>m_\<close> and \<open>r_\<close>. A timestamp is a
  \<^verbatim>\<open>Date\<close>, held as milliseconds since the epoch. Of a stored review, \<open>movieId\<close> and
  \<open>rating\<close> are results of \<open>parseInt\<close>, \<open>userId\<close> and \<open>userName\<close> are whatever the
  request body held, and \<open>text\<close> is a result of \<open>trim\<close>.
\<close>

record movie =
  m_id :: int
  m_title :: string
  m_year :: int
  m_rating :: rat
  m_genre :: string
  m_director :: string
  m_duration :: int
  m_poster :: string
  m_description :: string

record review =
  r_id :: int
  r_movieId :: jsnum
  r_userId :: jsval
  r_userName :: jsval
  r_rating :: jsnum
  r_text :: string
  r_createdAt :: int
  r_updatedAt :: int

record state =
  movies :: "movie list"
  reviews :: "review list"

text \<open>A response: \<^verbatim>\<open>res.status(code).json(body)\<close>, or an error with its message.\<close>

datatype 'a response = Reply nat 'a | Fail nat string

text \<open>
  The error kinds of the specification, read off a response: a 400 is \<open>DuplicateReview\<close>
  when it carries the duplicate message and \<open>InvalidArgument\<close> otherwise.
\<close>

datatype error_kind =
  InvalidArgument | DuplicateReview | NotFound | Forbidden | Unauthenticated | Internal

fun kind_of :: "'a response \<Rightarrow> error_kind option" where
  "kind_of (Reply code body) = None"
| "kind_of (Fail code msg) =
     Some (if code = 400
           then (if msg = ''You have already reviewed this movie'' then DuplicateReview
                 else InvalidArgument)
           else if code = 404 then NotFound
           else if code = 403 then Forbidden
           else if code = 401 then Unauthenticated
           else Internal)"

definition sample_movies :: "movie list" where
  "sample_movies =
     [\<lparr>m_id = 1, m_title = ''The Shawshank Redemption'', m_year = 1994, m_rating = 93 / 10,
       m_genre = ''Drama'', m_director = ''Frank Darabont'', m_duration = 142,
       m_poster = ''https://image.tmdb.org/t/p/w500/q6y0Go1tsGEsmtFryDOJo3dEmqu.jpg'',
       m_description = ''Two imprisoned men bond over a number of years, finding solace and eventual redemption through acts of common decency.''\<rparr>,
      \<lparr>m_id = 2, m_title = ''The Godfather'', m_year = 1972, m_rating = 92 / 10,
       m_genre = ''Crime'', m_director = ''Francis Ford Coppola'', m_duration = 175,
       m_poster = ''https://image.tmdb.org/t/p/w500/3bhkrj58Vtu7enYsRolD1fZdja1.jpg'',
       m_description = ''The aging patriarch of an organized crime dynasty transfers control of his clandestine empire to his reluctant son.''\<rparr>,
      \<lparr>m_id = 3, m_title = ''The Dark Knight'', m_year = 2008, m_rating = 9,
       m_genre = ''Action'', m_director = ''Christopher Nolan'', m_duration = 152,
       m_poster = ''https://image.tmdb.org/t/p/w500/qJ2tW6WMUDux911r6m7haRef0WH.jpg'',
       m_description = ''When the menace known as the Joker wreaks havoc and chaos on the people of Gotham, Batman must accept one of the greatest psychological and physical tests of his ability to fight injustice.''\<rparr>,
      \<lparr>m_id = 4, m_title = ''Pulp Fiction'', m_year = 1994, m_rating = 89 / 10,
       m_genre = ''Crime'', m_director = ''Quentin Tarantino'', m_duration = 154,
       m_poster = ''https://image.tmdb.org/t/p/w500/d5iIlFn5s0ImszYzBPb8JPIfbXD.jpg'',
       m_description = ''The lives of two mob hitmen, a boxer, a gangster and his wife, and a pair of diner bandits intertwine in four tales of violence and redemption.''\<rparr>,
      \<lparr>m_id = 5, m_title = ''Forrest Gump'', m_year = 1994, m_rating = 88 / 10,
       m_genre = ''Drama'', m_director = ''Robert Zemeckis'', m_duration = 142,
       m_poster = ''https://image.tmdb.org/t/p/w500/saHP97rTPS5eLwERh_sVru84Gbp.jpg'',
       m_description = ''The presidencies of Kennedy and Johnson, the Vietnam War, the Watergate scandal and other historical events unfold from the perspective of an Alabama man with an IQ of 75.''\<rparr>]"

definition sample_reviews :: "review list" where
  "sample_reviews =
     [\<lparr>r_id = 1, r_movieId = Fin 1, r_userId = JStr ''user123'', r_userName = JStr ''John Doe'',
       r_rating = Fin 5,
       r_text = ''Amazing movie! A true masterpiece that stands the test of time. The story of hope and friendship is incredibly moving.'',
       r_createdAt = 1705276800000, r_updatedAt = 1705276800000\<rparr>,
      \<lparr>r_id = 2, r_movieId = Fin 1, r_userId = JStr ''user456'', r_userName = JStr ''Jane Smith'',
       r_rating = Fin 4,
       r_text = ''Great story and excellent acting. Morgan Freeman'' @ [CHR 0x27] @ ''s narration is perfect. A bit long but worth every minute.'',
       r_createdAt = 1705708800000, r_updatedAt = 1705708800000\<rparr>,
      \<lparr>r_id = 3, r_movieId = Fin 2, r_userId = JStr ''user789'', r_userName = JStr ''Mike Johnson'',
       r_rating = Fin 5,
       r_text = ''The best crime drama ever made. Marlon Brando'' @ [CHR 0x27] @ ''s performance is legendary. Every scene is perfectly crafted.'',
       r_createdAt = 1706745600000, r_updatedAt = 1706745600000\<rparr>]"

definition initial_state :: state where
  "initial_state = \<lparr>movies = sample_movies, reviews = sample_reviews\<rparr>"

subsection \<open>Pagination\<close>

text \<open>
  A query parameter is absent or a string; the destructuring default applies to an absent
  one only, and is a number.
\<close>

definition param_or :: "string option \<Rightarrow> jsval \<Rightarrow> jsval" where
  "param_or p d = (case p of None \<Rightarrow> d | Some s \<Rightarrow> JStr s)"

record 'a page =
  items :: "'a list"
  currentPage :: jsnum
  totalPages :: jsnum
  totalCount :: nat
  hasNextPage :: bool
  hasPrevPage :: bool

text \<open>
  The pagination lines of \<^verbatim>\<open>GET /api/movies\<close>:
  \<^verbatim>\<open>startIndex = (page - 1) * limit; endIndex = startIndex + parseInt(limit)\<close>,
  the slice, and the fields of the response. \<^verbatim>\<open>GET /api/movies/:id/reviews\<close> repeats
  them word for word.
\<close>

definition paginate :: "'a list \<Rightarrow> jsval \<Rightarrow> jsval \<Rightarrow> 'a page" where
  "paginate xs page limit =
     (let startIndex = num_mul (num_sub (to_number page) (Fin 1)) (to_number limit);
          endIndex = num_add startIndex (parseInt limit)
      in \<lparr>items = slice xs startIndex endIndex,
          currentPage = parseInt page,
          totalPages = math_ceil (num_div (num (int (length xs))) (to_number limit)),
          totalCount = length xs,
          hasNextPage = num_lt endIndex (num (int (length xs))),
          hasPrevPage = num_lt (Fin 0) startIndex\<rparr>)"

subsection \<open>Reading movies\<close>

record movies_query =
  q_page :: "string option"
  q_limit :: "string option"
  q_search :: "string option"
  q_genre :: "string option"
  q_sortBy :: "string option"

text \<open>
  The comparator of the listing. \<^verbatim>\<open>localeCompare\<close> depends on the collation of the
  JavaScript runtime and is a parameter.
\<close>

definition movie_cmp :: "(string \<Rightarrow> string \<Rightarrow> jsnum) \<Rightarrow> string \<Rightarrow> movie \<Rightarrow> movie \<Rightarrow> jsnum" where
  "movie_cmp localeCompare sortBy a b =
     (if sortBy = ''year'' then num (m_year b - m_year a)
      else if sortBy = ''rating'' then Fin (m_rating b - m_rating a)
      else localeCompare (m_title a) (m_title b))"

text \<open>
  \<^verbatim>\<open>GET /api/movies\<close>. \<^verbatim>\<open>let filteredMovies = movies\<close> names the stored array
  itself. \<^verbatim>\<open>filter\<close> makes a new array, whereas \<^verbatim>\<open>sort\<close> orders in place the array
  it is called on: when neither the search nor the genre filter ran, that array is the
  stored one, and the state returned holds it sorted.
\<close>

definition list_movies ::
  "(string \<Rightarrow> string \<Rightarrow> jsnum) \<Rightarrow> movies_query \<Rightarrow> state \<Rightarrow> movie page response \<times> state" where
  "list_movies localeCompare q st =
     (let page = param_or (q_page q) (JNum (Fin 1));
          limit = param_or (q_limit q) (JNum (Fin 10));
          search = (case q_search q of None \<Rightarrow> [] | Some s \<Rightarrow> s);
          genre = (case q_genre q of None \<Rightarrow> [] | Some s \<Rightarrow> s);
          sortBy = (case q_sortBy q of None \<Rightarrow> ''title'' | Some s \<Rightarrow> s);
          searched =
            (if search \<noteq> []
             then filter (\<lambda>m. str_includes (toLowerCase (m_title m)) (toLowerCase search)
                             \<or> str_includes (toLowerCase (m_director m)) (toLowerCase search)
                             \<or> str_includes (toLowerCase (m_description m)) (toLowerCase search))
                         (movies st)
             else movies st);
          filteredMovies =
            (if genre \<noteq> []
             then filter (\<lambda>m. toLowerCase (m_genre m) = toLowerCase genre) searched
             else searched);
          sorted = js_sort (movie_cmp localeCompare sortBy) filteredMovies
      in (Reply 200 (paginate sorted page limit),
          if search = [] \<and> genre = [] then st\<lparr>movies := sorted\<rparr> else st))"



text \<open>\<^verbatim>\<open>GET /api/movies/:id/reviews\<close>: the movie's reviews, newest first. It writes nothing.\<close>

definition list_movie_reviews :: "string \<Rightarrow> string option \<Rightarrow> string option \<Rightarrow> state \<Rightarrow> review page response" where
  "list_movie_reviews id_param page_param limit_param st =
     (let movieId = parse_int_str id_param;
          page = param_or page_param (JNum (Fin 1));
          limit = param_or limit_param (JNum (Fin 10));
          movieReviews = filter (\<lambda>r. num_eq (r_movieId r) movieId) (reviews st);
          sorted = js_sort (\<lambda>a b. num (r_createdAt b - r_createdAt a)) movieReviews
      in Reply 200 (paginate sorted page limit))"

subsection \<open>Writing reviews\<close>

record create_body =
  c_movieId :: jsval
  c_userId :: jsval
  c_userName :: jsval
  c_rating :: jsval
  c_text :: jsval

text \<open>\<^verbatim>\<open>reviews.length > 0 ? Math.max(...reviews.map(r => r.id)) + 1 : 1\<close>\<close>

definition next_id :: "review list \<Rightarrow> int" where
  "next_id rs = (if 0 < length rs then Max (set (map r_id rs)) + 1 else 1)"

text \<open>
  \<^verbatim>\<open>POST /api/reviews\<close>. The two timestamps are two readings of the clock, hence two
  parameters. \<^verbatim>\<open>text.trim()\<close> on a text that is not a string throws a
  \<open>TypeError\<close>, which the handler's \<^verbatim>\<open>catch\<close> answers with a 500; that happens while
  the new review is built, before anything is stored.
\<close>

definition create_review :: "int \<Rightarrow> int \<Rightarrow> create_body \<Rightarrow> state \<Rightarrow> review response \<times> state" where
  "create_review t_created t_updated b st =
     (if \<not> truthy (c_movieId b) \<or> \<not> truthy (c_userId b) \<or> \<not> truthy (c_userName b)
         \<or> \<not> truthy (c_rating b) \<or> \<not> truthy (c_text b)
      then (Fail 400 ''Movie ID, user ID, user name, rating, and text are required'', st)
      else if js_lt (c_rating b) (Fin 1) \<or> js_gt (c_rating b) (Fin 5)
      then (Fail 400 ''Rating must be between 1 and 5'', st)
      else if \<not> list_ex (\<lambda>m. num_eq (num (m_id m)) (parseInt (c_movieId b))) (movies st)
      then (Fail 404 ''Movie not found'', st)
      else if list_ex (\<lambda>r. num_eq (r_movieId r) (parseInt (c_movieId b))
                            \<and> strict_eq (r_userId r) (c_userId b)) (reviews st)
      then (Fail 400 ''You have already reviewed this movie'', st)
      else (case c_text b of
             JStr s \<Rightarrow>
               (let newReview =
                      \<lparr>r_id = next_id (reviews st),
                       r_movieId = parseInt (c_movieId b),
                       r_userId = c_userId b,
                       r_userName = c_userName b,
                       r_rating = parseInt (c_rating b),
                       r_text = trim s,
                       r_createdAt = t_created,
                       r_updatedAt = t_updated\<rparr>
                in (Reply 201 newReview, st\<lparr>reviews := reviews st @ [newReview]\<rparr>))
           | _ \<Rightarrow> (Fail 500 ''Failed to create review'', st)))"

record update_body =
  u_rating :: jsval
  u_text :: jsval
  u_userId :: jsval

text \<open>
  \<^verbatim>\<open>PUT /api/reviews/:id\<close>. The owner is checked against the \<open>userId\<close> field of the
  request body. The three assignments run in the source's order, so a text that is not a
  string throws after the rating has been written.
\<close>

definition update_review :: "int \<Rightarrow> string \<Rightarrow> update_body \<Rightarrow> state \<Rightarrow> review response \<times> state" where
  "update_review now id_param b st =
     (let reviewId = parse_int_str id_param
      in case findIndex (\<lambda>r. num_eq (num (r_id r)) reviewId) (reviews st) of
           None \<Rightarrow> (Fail 404 ''Review not found'', st)
         | Some reviewIndex \<Rightarrow>
             (let r = reviews st ! reviewIndex
              in if \<not> strict_eq (r_userId r) (u_userId b)
                 then (Fail 403 ''You can only update your own reviews'', st)
                 else if truthy (u_rating b) \<and> (js_lt (u_rating b) (Fin 1) \<or> js_gt (u_rating b) (Fin 5))
                 then (Fail 400 ''Rating must be between 1 and 5'', st)
                 else
                   (let r1 = (if truthy (u_rating b) then r\<lparr>r_rating := parseInt (u_rating b)\<rparr> else r)
                    in if truthy (u_text b)
                       then (case u_text b of
                               JStr s \<Rightarrow>
                                 (let r3 = r1\<lparr>r_text := trim s, r_updatedAt := now\<rparr>
                                  in (Reply 200 r3, st\<lparr>reviews := (reviews st)[reviewIndex := r3]\<rparr>))
                             | _ \<Rightarrow>
                                 (Fail 500 ''Failed to update review'',
                                  st\<lparr>reviews := (reviews st)[reviewIndex := r1]\<rparr>))
                       else (let r3 = r1\<lparr>r_updatedAt := now\<rparr>
                             in (Reply 200 r3, st\<lparr>reviews := (reviews st)[reviewIndex := r3]\<rparr>)))))"

text \<open>\<^verbatim>\<open>DELETE /api/reviews/:id\<close>; \<^verbatim>\<open>splice(reviewIndex, 1)\<close> removes the one element.\<close>

definition delete_review :: "string \<Rightarrow> jsval \<Rightarrow> state \<Rightarrow> string response \<times> state" where
  "delete_review id_param userId st =
     (let reviewId = parse_int_str id_param
      in case findIndex (\<lambda>r. num_eq (num (r_id r)) reviewId) (reviews st) of
           None \<Rightarrow> (Fail 404 ''Review not found'', st)
         | Some reviewIndex \<Rightarrow>
             if \<not> strict_eq (r_userId (reviews st ! reviewIndex)) userId
             then (Fail 403 ''You can only delete your own reviews'', st)
             else (Reply 200 ''Review deleted successfully'',
                   st\<lparr>reviews := take reviewIndex (reviews st) @ drop (Suc reviewIndex) (reviews st)\<rparr>))"

section \<open>The Firestore routes\<close>

text \<open>
  The second route set keeps reviews as documents of a Firestore collection and takes the
  author from a verified Firebase token. The collection is a list of documents in the
  order they were added, each under its document id. Firestore itself and Firebase Auth
  are not part of the repository: the id a new document gets, the server's timestamp, the
  token verifier, the user directory and the listing query are parameters. Calls to the
  store are taken to succeed.
\<close>

record review_doc =
  d_movieId :: jsval
  d_userId :: string
  d_rating :: jsval
  d_text :: string
  d_createdAt :: int
  d_updatedAt :: int

type_synonym collection = "(string \<times> review_doc) list"

subsection \<open>The token middleware\<close>

text \<open>\<^verbatim>\<open>h.split('Bearer ')[1]\<close>: what stands between the first and the second separator.\<close>

fun after_first :: "string \<Rightarrow> string \<Rightarrow> string option" where
  "after_first sep [] = None"
| "after_first sep (c # cs) =
     (if starts_with (c # cs) sep then Some (drop (length sep) (c # cs)) else after_first sep cs)"

fun before_first :: "string \<Rightarrow> string \<Rightarrow> string" where
  "before_first sep [] = []"
| "before_first sep (c # cs) = (if starts_with (c # cs) sep then [] else c # before_first sep cs)"

definition bearer_token :: "string option \<Rightarrow> string option" where
  "bearer_token authorization =
     (case authorization of
        None \<Rightarrow> None
      | Some h \<Rightarrow> map_option (before_first ''Bearer '') (after_first ''Bearer '' h))"

text \<open>
  \<^verbatim>\<open>verifyToken\<close>: \<open>verifyIdToken\<close> maps a token to the uid of its decoded form, or
  fails. The route handler runs with that uid as \<^verbatim>\<open>req.user.uid\<close>.
\<close>

definition verifyToken ::
  "(string \<Rightarrow> string option) \<Rightarrow> string option \<Rightarrow> (string \<Rightarrow> collection \<Rightarrow> 'a response \<times> collection)
   \<Rightarrow> collection \<Rightarrow> 'a response \<times> collection" where
  "verifyToken verifyIdToken authorization next db =
     (case bearer_token authorization of
        None \<Rightarrow> (Fail 401 ''No token provided'', db)
      | Some token \<Rightarrow>
          if token = [] then (Fail 401 ''No token provided'', db)
          else (case verifyIdToken token of
                  None \<Rightarrow> (Fail 401 ''Invalid token'', db)
                | Some uid \<Rightarrow> next uid db))"

subsection \<open>Writing reviews\<close>

record fs_create_body =
  fc_movieId :: jsval
  fc_rating :: jsval
  fc_text :: jsval

text \<open>
  \<^verbatim>\<open>POST /\<close>, behind \<open>verifyToken\<close>. The document stored carries the server's
  timestamp; the response repeats it with two readings of the local clock.
\<close>

definition fs_create_review ::
  "string \<Rightarrow> int \<Rightarrow> int \<Rightarrow> int \<Rightarrow> fs_create_body \<Rightarrow> string \<Rightarrow> collection
   \<Rightarrow> (string \<times> review_doc) response \<times> collection" where
  "fs_create_review new_id server_time t_created t_updated b uid db =
     (if \<not> truthy (fc_movieId b) \<or> \<not> truthy (fc_rating b) \<or> \<not> truthy (fc_text b)
      then (Fail 400 ''Movie ID, rating, and text are required'', db)
      else if js_lt (fc_rating b) (Fin 1) \<or> js_gt (fc_rating b) (Fin 5)
      then (Fail 400 ''Rating must be between 1 and 5'', db)
      else if list_ex (\<lambda>doc. d_movieId (snd doc) = fc_movieId b \<and> d_userId (snd doc) = uid) db
      then (Fail 400 ''You have already reviewed this movie'', db)
      else (case fc_text b of
              JStr s \<Rightarrow>
                (let reviewData =
                       \<lparr>d_movieId = fc_movieId b,
                        d_userId = uid,
                        d_rating = fc_rating b,
                        d_text = trim s,
                        d_createdAt = server_time,
                        d_updatedAt = server_time\<rparr>
                 in (Reply 201 (new_id, reviewData\<lparr>d_createdAt := t_created, d_updatedAt := t_updated\<rparr>),
                     db @ [(new_id, reviewData)]))
            | _ \<Rightarrow> (Fail 500 ''Failed to create review'', db)))"

record fs_update_body =
  fu_rating :: jsval
  fu_text :: jsval

text \<open>\<^verbatim>\<open>reviewRef.update(fields)\<close> and \<^verbatim>\<open>reviewRef.delete()\<close> on the document of an id.\<close>

definition doc_update :: "string \<Rightarrow> (review_doc \<Rightarrow> review_doc) \<Rightarrow> collection \<Rightarrow> collection" where
  "doc_update k f db = map (\<lambda>(i, d). if i = k then (i, f d) else (i, d)) db"

definition doc_delete :: "string \<Rightarrow> collection \<Rightarrow> collection" where
  "doc_delete k db = filter (\<lambda>(i, d). i \<noteq> k) db"

text \<open>\<^verbatim>\<open>PUT /:reviewId\<close>, behind \<open>verifyToken\<close>.\<close>

definition fs_update_review ::
  "int \<Rightarrow> string \<Rightarrow> fs_update_body \<Rightarrow> string \<Rightarrow> collection \<Rightarrow> string response \<times> collection" where
  "fs_update_review server_time reviewId b uid db =
     (if \<not> truthy (fu_rating b) \<or> \<not> truthy (fu_text b)
      then (Fail 400 ''Rating and text are required'', db)
      else if js_lt (fu_rating b) (Fin 1) \<or> js_gt (fu_rating b) (Fin 5)
      then (Fail 400 ''Rating must be between 1 and 5'', db)
      else case map_of db reviewId of
             None \<Rightarrow> (Fail 404 ''Review not found'', db)
           | Some reviewData \<Rightarrow>
               if d_userId reviewData \<noteq> uid
               then (Fail 403 ''You can only update your own reviews'', db)
               else (case fu_text b of
                       JStr s \<Rightarrow>
                         (Reply 200 ''Review updated successfully'',
                          doc_update reviewId
                            (\<lambda>d. d\<lparr>d_rating := fu_rating b, d_text := trim s, d_updatedAt := server_time\<rparr>) db)
                     | _ \<Rightarrow> (Fail 500 ''Failed to update review'', db)))"

text \<open>\<^verbatim>\<open>DELETE /:reviewId\<close>, behind \<open>verifyToken\<close>.\<close>

definition fs_delete_review :: "string \<Rightarrow> string \<Rightarrow> collection \<Rightarrow> string response \<times> collection" where
  "fs_delete_review reviewId uid db =
     (case map_of db reviewId of
        None \<Rightarrow> (Fail 404 ''Review not found'', db)
      | Some reviewData \<Rightarrow>
          if d_userId reviewData \<noteq> uid
          then (Fail 403 ''You can only delete your own reviews'', db)
          else (Reply 200 ''Review deleted successfully'', doc_delete reviewId db))"

subsection \<open>Reading reviews\<close>

record user_record =
  displayName :: jsval
  email :: jsval
  photoURL :: jsval

record user_details =
  userName :: jsval
  userPhoto :: jsval

text \<open>
  A review as a response shows it: the document under its id, and the author's name and
  photo when they were merged in.
\<close>

record review_view =
  v_id :: string
  v_doc :: review_doc
  v_user :: "user_details option"

text \<open>\<^verbatim>\<open>userName: userRecord.displayName || userRecord.email, userPhoto: userRecord.photoURL\<close>\<close>

definition details_of :: "user_record \<Rightarrow> user_details" where
  "details_of u =
     \<lparr>userName = (if truthy (displayName u) then displayName u else email u),
      userPhoto = photoURL u\<rparr>"

text \<open>
  The body of the \<^verbatim>\<open>map\<close> callback: \<open>getUser\<close> returns the user's record or throws
  (\<open>None\<close>), and the \<^verbatim>\<open>catch\<close> returns the review as it is.
\<close>

definition with_user_details :: "(string \<Rightarrow> user_record option) \<Rightarrow> string \<times> review_doc \<Rightarrow> review_view" where
  "with_user_details getUser review =
     (case getUser (d_userId (snd review)) of
        Some userRecord \<Rightarrow>
          \<lparr>v_id = fst review, v_doc = snd review, v_user = Some (details_of userRecord)\<rparr>
      | None \<Rightarrow> \<lparr>v_id = fst review, v_doc = snd review, v_user = None\<rparr>)"

record fs_query =
  where_field :: string
  where_value :: jsval
  query_limit :: jsnum
  query_offset :: jsnum

text \<open>
  \<^verbatim>\<open>GET /movie/:movieId\<close>. \<open>run_query\<close> is the Firestore client answering the query
  (equality filter, newest first, limit and offset): the documents of the snapshot, or
  \<open>None\<close> when building or running the query throws, which the outer \<^verbatim>\<open>catch\<close> answers
  with a 500.
\<close>

definition fs_reviews_for_movie ::
  "(string \<Rightarrow> user_record option) \<Rightarrow> (fs_query \<Rightarrow> collection \<Rightarrow> (string \<times> review_doc) list option)
   \<Rightarrow> string \<Rightarrow> string option \<Rightarrow> string option \<Rightarrow> collection \<Rightarrow> review_view list response" where
  "fs_reviews_for_movie getUser run_query movieId limit_param offset_param db =
     (let limit = param_or limit_param (JNum (Fin 50));
          offset = param_or offset_param (JNum (Fin 0))
      in case run_query \<lparr>where_field = ''movieId'', where_value = JStr movieId,
                         query_limit = parseInt limit, query_offset = parseInt offset\<rparr> db of
           None \<Rightarrow> Fail 500 ''Failed to fetch reviews''
         | Some snapshot \<Rightarrow> Reply 200 (map (with_user_details getUser) snapshot))"

text \<open>\<^verbatim>\<open>GET /:reviewId\<close>: spreading \<^verbatim>\<open>userDetails\<close> when it is still \<open>null\<close> adds nothing.\<close>

definition fs_get_review :: "(string \<Rightarrow> user_record option) \<Rightarrow> string \<Rightarrow> collection \<Rightarrow> review_view response" where
  "fs_get_review getUser reviewId db =
     (case map_of db reviewId of
        None \<Rightarrow> Fail 404 ''Review not found''
      | Some reviewData \<Rightarrow>
          (let userDetails = map_option details_of (getUser (d_userId reviewData))
           in Reply 200 \<lparr>v_id = reviewId, v_doc = reviewData, v_user = userDetails\<rparr>))"

text \<open>\<^verbatim>\<open>GET /user/:userId\<close>: the documents of the snapshot as they are.\<close>

definition fs_reviews_for_user ::
  "(fs_query \<Rightarrow> collection \<Rightarrow> (string \<times> review_doc) list option)
   \<Rightarrow> string \<Rightarrow> string option \<Rightarrow> string option \<Rightarrow> collection \<Rightarrow> (string \<times> review_doc) list response" where
  "fs_reviews_for_user run_query userId limit_param offset_param db =
     (let limit = param_or limit_param (JNum (Fin 50));
          offset = param_or offset_param (JNum (Fin 0))
      in case run_query \<lparr>where_field = ''userId'', where_value = JStr userId,
                         query_limit = parseInt limit, query_offset = parseInt offset\<rparr> db of
           None \<Rightarrow> Fail 500 ''Failed to fetch user reviews''
         | Some snapshot \<Rightarrow> Reply 200 snapshot)"

section \<open>Notions the properties are stated with\<close>

subsection \<open>One review per movie and author\<close>





subsection \<open>Pagination as the specification words it\<close>



subsection \<open>Ratings as numbers\<close>




text \<open>A number rounded to one decimal: the nearest tenth, away from zero on a tie.\<close>

definition round1 :: "rat \<Rightarrow> rat" where
  "round1 x = (if x < 0 then - 1 else 1) * rat_of_nat (tenths x) / 10"

subsection \<open>Sequences of writes\<close>

datatype write_op =
  Create int int create_body
| Update int string update_body
| Delete string jsval

fun apply_op :: "write_op \<Rightarrow> state \<Rightarrow> state" where
  "apply_op (Create t_created t_updated b) st = snd (create_review t_created t_updated b st)"
| "apply_op (Update now id_param b) st = snd (update_review now id_param b st)"
| "apply_op (Delete id_param userId) st = snd (delete_review id_param userId st)"

fun run_ops :: "write_op list \<Rightarrow> state \<Rightarrow> state" where
  "run_ops [] st = st"
| "run_ops (x # xs) st = run_ops xs (apply_op x st)"


text \<open>No two stored reviews share an identifier.\<close>

definition distinct_ids :: "state \<Rightarrow> bool" where
  "distinct_ids st = distinct (map r_id (reviews st))"

subsection \<open>Requests that pass validation\<close>


text \<open>
  A create request passes the checks that stand before the duplicate check: the five
  fields are truthy, the rating is not below 1 or above 5, and the movie exists.
\<close>

definition valid_create :: "create_body \<Rightarrow> state \<Rightarrow> bool" where
  "valid_create b st =
     (truthy (c_movieId b) \<and> truthy (c_userId b) \<and> truthy (c_userName b)
      \<and> truthy (c_rating b) \<and> truthy (c_text b)
      \<and> \<not> js_lt (c_rating b) (Fin 1) \<and> \<not> js_gt (c_rating b) (Fin 5)
      \<and> list_ex (\<lambda>m. num_eq (num (m_id m)) (parseInt (c_movieId b))) (movies st))"


text \<open>A collection of one review, for the examples.\<close>

definition example_collection :: collection where
  "example_collection =
     [(''doc1'', \<lparr>d_movieId = JStr ''550'', d_userId = ''alice'', d_rating = JNum (Fin 4),
                  d_text = ''Sharp and funny'', d_createdAt = 1000, d_updatedAt = 1000\<rparr>)]"

subsection \<open>Writes and their preconditions\<close>

text \<open>
  The review after the three assignments of an update, in the source's order; a text that
  is truthy but not a string stops them after the first.
\<close>

definition updated_review :: "int \<Rightarrow> update_body \<Rightarrow> review \<Rightarrow> review" where
  "updated_review now b r =
     (let r1 = (if truthy (u_rating b) then r\<lparr>r_rating := parseInt (u_rating b)\<rparr> else r)
      in if truthy (u_text b)
         then (case u_text b of JStr s \<Rightarrow> r1\<lparr>r_text := trim s, r_updatedAt := now\<rparr> | _ \<Rightarrow> r1)
         else r1\<lparr>r_updatedAt := now\<rparr>)"



section \<open>Decimal strings, written and read back\<close>

text \<open>
  What \<open>dec\<close> writes is a run of decimal digits that reads back, to \<open>Number\<close> as to
  \<open>parseInt\<close>, as the number written; and the string of a number with one decimal reads
  back as that many tenths.
\<close>

lemma digit_char: "d < 10 \<Longrightarrow> digit_of 10 (char_of (48 + d)) = Some d"
  by (simp add: digit_of_def)

lemma dec_single: "b < 10 \<Longrightarrow> dec b = [char_of (48 + b)]"
  by (subst dec.simps) simp

lemma dec_digits: "list_all (is_digit 10) (dec n)"
proof (induction n rule: dec.induct)
  case (1 n)
  show ?case
  proof (cases "n < 10")
    case True
    then show ?thesis by (simp add: dec_single is_digit_def digit_char)
  next
    case False
    then have "dec n = dec (n div 10) @ [char_of (48 + n mod 10)]"
      by (subst dec.simps) simp
    moreover have "is_digit 10 (char_of (48 + n mod 10))"
      by (simp add: is_digit_def digit_char)
    ultimately show ?thesis using 1 False by simp
  qed
qed

lemma dec_value: "digits_value 10 (dec n) = n"
proof (induction n rule: dec.induct)
  case (1 n)
  show ?case
  proof (cases "n < 10")
    case True
    then show ?thesis by (simp add: dec_single digits_value_def digit_char)
  next
    case False
    then have "dec n = dec (n div 10) @ [char_of (48 + n mod 10)]"
      by (subst dec.simps) simp
    moreover have "digit_of 10 (char_of (48 + n mod 10)) = Some (n mod 10)"
      by (simp add: digit_char)
    ultimately show ?thesis
      using 1 False by (simp add: digits_value_def)
  qed
qed

lemma dec_not_empty: "dec n \<noteq> []"
  by (subst dec.simps) simp

lemma digit_not_ws: "is_digit 10 c \<Longrightarrow> \<not> is_ws c"
  by (auto simp: is_digit_def digit_of_def is_ws_def Let_def split: if_splits)

lemma dropWhile_keeps:
  "xs \<noteq> [] \<Longrightarrow> \<not> P (hd xs) \<Longrightarrow> dropWhile P xs = xs"
  by (cases xs) auto

lemma trim_clean:
  assumes "s \<noteq> []" and "\<not> is_ws (hd s)" and "\<not> is_ws (last s)"
  shows "trim s = s"
proof -
  have "dropWhile is_ws s = s"
    using assms(1,2) by (rule dropWhile_keeps)
  moreover have "dropWhile is_ws (rev s) = rev s"
    using assms(1,3) by (intro dropWhile_keeps) (simp_all add: hd_rev)
  ultimately show ?thesis by (simp add: trim_def)
qed

lemma dot_not_digit: "\<not> is_digit 10 (CHR ''.'')"
  by (simp add: is_digit_def digit_of_def)

lemma parse_unsigned_one_decimal:
  "parse_unsigned_decimal (one_decimal n) = Some (Fin (rat_of_nat n / 10))"
proof -
  let ?A = "dec (n div 10)" and ?B = "dec (n mod 10)"
  have B: "?B = [char_of (48 + n mod 10)]"
    by (rule dec_single) simp
  have digitsA: "\<forall>c\<in>set ?A. is_digit 10 c" and digitsB: "\<forall>c\<in>set ?B. is_digit 10 c"
    using dec_digits by (simp_all add: list_all_iff)
  have S: "one_decimal n = ?A @ CHR ''.'' # ?B"
    by (simp add: one_decimal_def)
  have "is_digit 10 (hd (one_decimal n))"
    unfolding S using digitsA dec_not_empty [of "n div 10"] by (cases ?A) auto
  then have not_inf: "one_decimal n \<noteq> ''Infinity''"
    by (auto simp: is_digit_def digit_of_def)
  have ip: "takeWhile (is_digit 10) (one_decimal n) = ?A"
    unfolding S using digitsA by (simp add: takeWhile_append2 dot_not_digit)
  have r1: "dropWhile (is_digit 10) (one_decimal n) = CHR ''.'' # ?B"
    unfolding S using digitsA by (simp add: dropWhile_append2 dot_not_digit)
  have fp: "takeWhile (is_digit 10) ?B = ?B" and r2: "dropWhile (is_digit 10) ?B = []"
    using digitsB by simp_all
  have val: "rat_of_nat (digits_value 10 ?A) + rat_of_nat (digits_value 10 ?B) / 10 ^ length ?B
               = rat_of_nat n / 10"
  proof -
    have "rat_of_nat n = rat_of_nat (10 * (n div 10) + n mod 10)"
      by simp
    also have "\<dots> = 10 * rat_of_nat (n div 10) + rat_of_nat (n mod 10)"
      by (simp only: of_nat_add of_nat_mult of_nat_numeral)
    finally have n: "rat_of_nat n / 10 = rat_of_nat (n div 10) + rat_of_nat (n mod 10) / 10"
      by simp
    have "length ?B = 1"
      by (simp add: B)
    then show ?thesis
      by (simp only: dec_value n power_one_right)
  qed
  show ?thesis
    unfolding parse_unsigned_decimal_def Let_def ip r1
    using not_inf dec_not_empty [of "n div 10"] val
    by (simp add: fp r2 parse_exponent_def scale10_def del: dec.simps)
qed

lemma digits_and_dot_not_nondecimal:
  "list_all (\<lambda>c. is_digit 10 c \<or> c = CHR ''.'') s \<Longrightarrow> parse_nondecimal s = None"
  by (auto simp: parse_nondecimal_def Let_def is_digit_def digit_of_def split: list.splits)

lemma one_decimal_chars: "list_all (\<lambda>c. is_digit 10 c \<or> c = CHR ''.'') (one_decimal n)"
  using dec_digits [of "n div 10"] dec_digits [of "n mod 10"]
  by (auto simp: one_decimal_def list_all_iff)

lemma one_decimal_ends:
  shows "one_decimal n \<noteq> []" and "is_digit 10 (hd (one_decimal n))" and "is_digit 10 (last (one_decimal n))"
proof -
  let ?A = "dec (n div 10)" and ?B = "dec (n mod 10)"
  have A: "?A \<noteq> []" and B: "?B \<noteq> []"
    by (rule dec_not_empty)+
  show "one_decimal n \<noteq> []"
    by (simp add: one_decimal_def)
  have "hd (one_decimal n) = hd ?A"
    using A by (simp add: one_decimal_def)
  moreover have "hd ?A \<in> set ?A" using A by (rule hd_in_set)
  ultimately show "is_digit 10 (hd (one_decimal n))"
    using dec_digits [of "n div 10"] by (simp add: list_all_iff)
  have "last (one_decimal n) = last ?B"
    using B by (simp add: one_decimal_def)
  moreover have "last ?B \<in> set ?B" using B by (rule last_in_set)
  ultimately show "is_digit 10 (last (one_decimal n))"
    using dec_digits [of "n mod 10"] by (simp add: list_all_iff)
qed

lemma sign_not_digit: "is_digit 10 c \<Longrightarrow> c \<noteq> CHR ''-'' \<and> c \<noteq> CHR ''+''"
  by (auto simp: is_digit_def digit_of_def)

lemma read_one_decimal: "str_to_number (one_decimal n) = Fin (rat_of_nat n / 10)"
proof -
  let ?S = "one_decimal n"
  have t: "trim ?S = ?S"
    using one_decimal_ends [of n] by (intro trim_clean) (auto dest: digit_not_ws)
  obtain c cs where S: "?S = c # cs"
    using one_decimal_ends(1) [of n] by (cases ?S) auto
  have "is_digit 10 c"
    using one_decimal_ends(2) [of n] S by simp
  then have "c \<noteq> CHR ''-''" and "c \<noteq> CHR ''+''"
    using sign_not_digit by blast+
  then have plain: "\<not> starts_with ?S ''-''" "\<not> starts_with ?S ''+''"
    using S by simp_all
  show ?thesis
    unfolding str_to_number_def Let_def t
    using one_decimal_ends(1) [of n] plain
    by (simp add: digits_and_dot_not_nondecimal [OF one_decimal_chars] parse_unsigned_one_decimal)
qed

lemma read_minus_one_decimal:
  "str_to_number (CHR ''-'' # one_decimal n) = Fin (- (rat_of_nat n / 10))"
proof -
  let ?T = "CHR ''-'' # one_decimal n"
  have "last ?T = last (one_decimal n)"
    using one_decimal_ends(1) [of n] by simp
  then have "\<not> is_ws (last ?T)"
    using one_decimal_ends(3) [of n] digit_not_ws by simp
  moreover have "\<not> is_ws (hd ?T)"
    by (simp add: is_ws_def)
  ultimately have t: "trim ?T = ?T"
    by (intro trim_clean) simp_all
  have nd: "parse_nondecimal ?T = None"
    by (simp add: parse_nondecimal_def Let_def split: list.splits)
  show ?thesis
    unfolding str_to_number_def Let_def t
    by (simp add: nd parse_unsigned_one_decimal)
qed

lemma dec_ends:
  shows "is_digit 10 (hd (dec n))" and "is_digit 10 (last (dec n))"
  using dec_digits [of n] dec_not_empty [of n] hd_in_set [of "dec n"] last_in_set [of "dec n"]
  by (auto simp: list_all_iff)

lemma letter_x_not_digit: "is_digit 10 c \<Longrightarrow> c \<noteq> CHR ''x'' \<and> c \<noteq> CHR ''X''"
  by (auto simp: is_digit_def digit_of_def)

lemma digits_not_hex_prefix:
  assumes "list_all (is_digit 10) s"
  shows "\<not> starts_with s ''0x''" and "\<not> starts_with s ''0X''"
  using assms letter_x_not_digit
  by (cases s; cases "tl s"; auto)+

lemma digits_value_empty: "digits_value radix [] = 0"
  by (simp add: digits_value_def)

lemma decimal_string_reads_as_number:
  shows "to_number (JStr (dec n)) = num (int n)" and "parseInt (JStr (dec n)) = num (int n)"
proof -
  let ?S = "dec n"
  have all: "\<forall>c\<in>set ?S. is_digit 10 c"
    using dec_digits [of n] by (simp add: list_all_iff)
  have ne: "?S \<noteq> []"
    by (rule dec_not_empty)
  have t: "trim ?S = ?S"
    using ne dec_ends [of n] by (intro trim_clean) (auto dest: digit_not_ws)
  have nd: "parse_nondecimal ?S = None"
    using dec_digits [of n] by (intro digits_and_dot_not_nondecimal) (auto simp: list_all_iff)
  have plain: "\<not> starts_with ?S ''-''" "\<not> starts_with ?S ''+''"
    using ne dec_ends(1) [of n] sign_not_digit by (cases ?S; auto)+
  have not_inf: "?S \<noteq> ''Infinity''"
    using dec_ends(1) [of n] by (auto simp: is_digit_def digit_of_def)
  have ip: "takeWhile (is_digit 10) ?S = ?S" and r1: "dropWhile (is_digit 10) ?S = []"
    using all by simp_all
  have "parse_unsigned_decimal ?S = Some (Fin (rat_of_nat n))"
    unfolding parse_unsigned_decimal_def Let_def ip r1
    using not_inf ne by (simp add: parse_exponent_def scale10_def dec_value digits_value_empty)
  then show "to_number (JStr ?S) = num (int n)"
    using ne plain by (simp add: str_to_number_def t nd)
  have lead: "trim_start ?S = ?S"
    unfolding trim_start_def using ne dec_ends(1) [of n] digit_not_ws by (intro dropWhile_keeps) auto
  have hex: "\<not> starts_with ?S ''0x''" "\<not> starts_with ?S ''0X''"
    using digits_not_hex_prefix [OF dec_digits] by blast+
  show "parseInt (JStr ?S) = num (int n)"
    using plain hex ne by (simp add: parse_int_str_def Let_def lead ip dec_value)
qed

section \<open>Pagination\<close>

lemma math_trunc_of_nat: "math_trunc (of_nat k) = int k"
  by (simp add: math_trunc_def)

lemma rel_index_nat: "rel_index len (num (int k)) = min k len"
  by (simp add: rel_index_def math_trunc_of_nat)

lemma num_lt_nat: "num_lt (num (int a)) (num (int b)) = (a < b)"
  by simp

lemma num_pos_nat: "num_lt (Fin 0) (num (int n)) = (0 < n)"
  by simp

lemma take_drop_clamped:
  assumes "s \<le> e"
  shows "take (min e (length xs) - min s (length xs)) (drop (min s (length xs)) xs)
           = take (e - s) (drop s xs)"
proof (cases "length xs \<le> s")
  case True
  then show ?thesis by simp
next
  case False
  then have s: "min s (length xs) = s" by simp
  show ?thesis
  proof (cases "e \<le> length xs")
    case True
    then show ?thesis using s by simp
  next
    case False
    then have "min e (length xs) = length xs" by simp
    moreover have "length (drop s xs) \<le> e - s" using False by simp
    ultimately show ?thesis using s by simp
  qed
qed

lemma slice_nat:
  "s \<le> e \<Longrightarrow> slice xs (num (int s)) (num (int e)) = take (e - s) (drop s xs)"
  by (simp only: slice_def Let_def rel_index_nat take_drop_clamped)

lemma paginate_fields:
  assumes "to_number page = num (int p)" and "parseInt page = num (int p)"
    and "to_number limit = num (int l)" and "parseInt limit = num (int l)"
    and "1 \<le> p" and "1 \<le> l"
  shows "paginate xs page limit =
           \<lparr>items = take l (drop ((p - 1) * l) xs),
            currentPage = num (int p),
            totalPages = num \<lceil>rat_of_nat (length xs) / rat_of_nat l\<rceil>,
            totalCount = length xs,
            hasNextPage = ((p - 1) * l + l < length xs),
            hasPrevPage = (0 < (p - 1) * l)\<rparr>"
proof -
  have start: "num_mul (num_sub (to_number page) (Fin 1)) (to_number limit) = num (int ((p - 1) * l))"
    using assms by (simp add: num_sub_def of_nat_diff)
  have stop: "num_add (num (int ((p - 1) * l))) (parseInt limit) = num (int ((p - 1) * l + l))"
    using assms by simp
  have sl: "slice xs (num (int ((p - 1) * l))) (num (int ((p - 1) * l + l))) = take l (drop ((p - 1) * l) xs)"
    using slice_nat [of "(p - 1) * l" "(p - 1) * l + l" xs] by simp
  have next_page: "num_lt (num (int ((p - 1) * l + l))) (num (int (length xs))) = ((p - 1) * l + l < length xs)"
    by (rule num_lt_nat)
  have prev_page: "num_lt (Fin 0) (num (int ((p - 1) * l))) = (0 < (p - 1) * l)"
    by (rule num_pos_nat)
  have pages: "math_ceil (num_div (num (int (length xs))) (to_number limit)) = num \<lceil>rat_of_nat (length xs) / rat_of_nat l\<rceil>"
    using assms by simp
  show ?thesis
    unfolding paginate_def Let_def start stop sl next_page prev_page pages
    using assms(2) by simp
qed

text \<open>
  The hypotheses of the next theorem hold of every page and limit written in decimal, and
  of the defaults.
\<close>

lemma paginate_decimal_params:
  assumes "1 \<le> p" and "1 \<le> l"
  shows "paginate xs (param_or (Some (dec p)) (JNum (Fin 1))) (param_or (Some (dec l)) (JNum (Fin 10)))
           = \<lparr>items = take l (drop ((p - 1) * l) xs),
              currentPage = num (int p),
              totalPages = num \<lceil>rat_of_nat (length xs) / rat_of_nat l\<rceil>,
              totalCount = length xs,
              hasNextPage = ((p - 1) * l + l < length xs),
              hasPrevPage = (0 < (p - 1) * l)\<rparr>"
  using assms
  by (intro paginate_fields) (simp_all only: param_or_def option.case decimal_string_reads_as_number)




section \<open>One review per movie and author\<close>













section \<open>What an update may change\<close>

lemma findIndex_Some:
  "findIndex p xs = Some i \<Longrightarrow> i < length xs \<and> p (xs ! i)"
proof (induction xs arbitrary: i)
  case Nil
  then show ?case by simp
next
  case (Cons x xs)
  show ?case
  proof (cases "p x")
    case True
    then show ?thesis using Cons.prems by simp
  next
    case False
    then obtain j where "findIndex p xs = Some j" and "i = Suc j"
      using Cons.prems by auto
    then show ?thesis using Cons.IH by simp
  qed
qed

lemma map_of_doc_update:
  "map_of (doc_update k f db) k' = (if k' = k then map_option f (map_of db k) else map_of db k')"
  by (induction db) (auto simp: doc_update_def)

lemma keys_doc_update: "map fst (doc_update k f db) = map fst db"
  by (induction db) (auto simp: doc_update_def)

lemma update_review_frame:
  assumes "update_review now id_param b st = (Reply 200 r', st')"
  shows "\<exists>i. findIndex (\<lambda>r. num_eq (num (r_id r)) (parse_int_str id_param)) (reviews st) = Some i
           \<and> i < length (reviews st)
           \<and> reviews st' = (reviews st)[i := r'] \<and> movies st' = movies st
           \<and> r_id r' = r_id (reviews st ! i)
           \<and> r_movieId r' = r_movieId (reviews st ! i)
           \<and> r_userId r' = r_userId (reviews st ! i)
           \<and> r_userName r' = r_userName (reviews st ! i)
           \<and> r_createdAt r' = r_createdAt (reviews st ! i)
           \<and> r_updatedAt r' = now
           \<and> (u_rating b = JUndefined \<longrightarrow> r_rating r' = r_rating (reviews st ! i))
           \<and> (u_text b = JUndefined \<longrightarrow> r_text r' = r_text (reviews st ! i))"
proof -
  obtain i where i: "findIndex (\<lambda>r. num_eq (num (r_id r)) (parse_int_str id_param)) (reviews st) = Some i"
    using assms by (auto simp: update_review_def split: option.splits)
  then have "i < length (reviews st)"
    using findIndex_Some by blast
  then show ?thesis
    using assms i
    by (intro exI [of _ i])
       (auto simp: update_review_def Let_def split: if_splits jsval.splits)
qed

lemma fs_update_review_frame:
  assumes "fs_update_review ts rid b uid db = (Reply 200 msg, db')"
  shows "truthy (fu_rating b) \<and> truthy (fu_text b)
         \<and> map fst db' = map fst db
         \<and> (\<forall>k. k \<noteq> rid \<longrightarrow> map_of db' k = map_of db k)
         \<and> (\<exists>d d'. map_of db rid = Some d \<and> map_of db' rid = Some d'
                \<and> d_movieId d' = d_movieId d \<and> d_userId d' = d_userId d
                \<and> d_createdAt d' = d_createdAt d \<and> d_updatedAt d' = ts)"
  using assms
  by (auto simp: fs_update_review_def map_of_doc_update keys_doc_update
           split: if_splits option.splits jsval.splits)

text \<open>
  Claim C7. A successful update (status 200) of a review changes that review only: the
  collection afterwards is the one before with the review of the requested identifier
  replaced in its place, and the movies are untouched. Of the review, the identifier, the movie identifier, the author
  (and the author's name) and the creation timestamp are as before; \<open>updatedAt\<close> is the
  time of the update; a rating absent from the request leaves the stored rating as it
  was, and an absent text leaves the stored text as it was. In the Firestore route a
  successful update always carries both fields, and the document keeps its movie, author
  and creation timestamp, gets the server's time as \<open>updatedAt\<close>, and every other
  document and the order of the documents stay as they were.
\<close>

theorem update_changes_only_rating_text_updatedAt:
  "(update_review now id_param b st = (Reply 200 r', st') \<longrightarrow>
      (\<exists>i. findIndex (\<lambda>r. num_eq (num (r_id r)) (parse_int_str id_param)) (reviews st) = Some i
           \<and> i < length (reviews st)
           \<and> reviews st' = (reviews st)[i := r'] \<and> movies st' = movies st
           \<and> r_id r' = r_id (reviews st ! i)
           \<and> r_movieId r' = r_movieId (reviews st ! i)
           \<and> r_userId r' = r_userId (reviews st ! i)
           \<and> r_userName r' = r_userName (reviews st ! i)
           \<and> r_createdAt r' = r_createdAt (reviews st ! i)
           \<and> r_updatedAt r' = now
           \<and> (u_rating b = JUndefined \<longrightarrow> r_rating r' = r_rating (reviews st ! i))
           \<and> (u_text b = JUndefined \<longrightarrow> r_text r' = r_text (reviews st ! i))))
   \<and> (fs_update_review ts rid fb uid db = (Reply 200 msg, db') \<longrightarrow>
        truthy (fu_rating fb) \<and> truthy (fu_text fb)
        \<and> map fst db' = map fst db
        \<and> (\<forall>k. k \<noteq> rid \<longrightarrow> map_of db' k = map_of db k)
        \<and> (\<exists>d d'. map_of db rid = Some d \<and> map_of db' rid = Some d'
               \<and> d_movieId d' = d_movieId d \<and> d_userId d' = d_userId d
               \<and> d_createdAt d' = d_createdAt d \<and> d_updatedAt d' = ts))"
  using update_review_frame fs_update_review_frame by blast

theorem update_changes_only_rating_text_updatedAt_witness:
  "update_review 99 ''2''
       \<lparr>u_rating = JUndefined, u_text = JStr '' Better on a second viewing '', u_userId = JStr ''user456''\<rparr>
       initial_state
     = (Reply 200 ((reviews initial_state ! 1)\<lparr>r_text := ''Better on a second viewing'', r_updatedAt := 99\<rparr>),
        initial_state\<lparr>reviews := (reviews initial_state)
           [1 := (reviews initial_state ! 1)\<lparr>r_text := ''Better on a second viewing'', r_updatedAt := 99\<rparr>]\<rparr>)
   \<and> u_rating \<lparr>u_rating = JUndefined, u_text = JStr '' Better on a second viewing '',
                 u_userId = JStr ''user456''\<rparr> = JUndefined
   \<and> (\<exists>i. i < length (reviews initial_state)
          \<and> r_id (reviews initial_state ! i) = 2
          \<and> r_rating (reviews initial_state ! i) = Fin 4
          \<and> r_createdAt (reviews initial_state ! i) = 1705708800000)
   \<and> update_review 100 ''3'' \<lparr>u_rating = JNum (Fin 4), u_text = JUndefined, u_userId = JStr ''user789''\<rparr>
       initial_state
     = (Reply 200 ((reviews initial_state ! 2)\<lparr>r_rating := Fin 4, r_updatedAt := 100\<rparr>),
        initial_state\<lparr>reviews := (reviews initial_state)
           [2 := (reviews initial_state ! 2)\<lparr>r_rating := Fin 4, r_updatedAt := 100\<rparr>]\<rparr>)
   \<and> u_text \<lparr>u_rating = JNum (Fin 4), u_text = JUndefined, u_userId = JStr ''user789''\<rparr> = JUndefined
   \<and> (\<exists>i. i < length (reviews initial_state)
          \<and> r_id (reviews initial_state ! i) = 3
          \<and> r_text (reviews initial_state ! i) = r_text (sample_reviews ! 2))
   \<and> fs_update_review 3000 ''doc1'' \<lparr>fu_rating = JNum (Fin 5), fu_text = JStr ''Even better''\<rparr>
         ''alice'' example_collection
       = (Reply 200 ''Review updated successfully'',
          [(''doc1'', \<lparr>d_movieId = JStr ''550'', d_userId = ''alice'', d_rating = JNum (Fin 5),
                       d_text = ''Even better'', d_createdAt = 1000, d_updatedAt = 3000\<rparr>)])
   \<and> (\<exists>d. map_of example_collection ''doc1'' = Some d \<and> d_movieId d = JStr ''550''
          \<and> d_userId d = ''alice'' \<and> d_createdAt d = 1000)"
proof -
  let ?b = "\<lparr>u_rating = JUndefined, u_text = JStr '' Better on a second viewing '',
             u_userId = JStr ''user456''\<rparr>"
  let ?R = "(reviews initial_state ! 1)\<lparr>r_text := ''Better on a second viewing'', r_updatedAt := 99\<rparr>"
  let ?S = "initial_state\<lparr>reviews := (reviews initial_state)[1 := ?R]\<rparr>"
  let ?c = "\<lparr>u_rating = JNum (Fin 4), u_text = JUndefined, u_userId = JStr ''user789''\<rparr>"
  let ?Q = "(reviews initial_state ! 2)\<lparr>r_rating := Fin 4, r_updatedAt := 100\<rparr>"
  let ?T = "initial_state\<lparr>reviews := (reviews initial_state)[2 := ?Q]\<rparr>"
  let ?fb = "\<lparr>fu_rating = JNum (Fin 5), fu_text = JStr ''Even better''\<rparr>"
  let ?D = "[(''doc1'', \<lparr>d_movieId = JStr ''550'', d_userId = ''alice'', d_rating = JNum (Fin 5),
                         d_text = ''Even better'', d_createdAt = 1000, d_updatedAt = 3000\<rparr>)]"
  have run: "update_review 99 ''2'' ?b initial_state = (Reply 200 ?R, ?S)"
    by code_simp
  have run2: "update_review 100 ''3'' ?c initial_state = (Reply 200 ?Q, ?T)"
    by code_simp
  have fs_run: "fs_update_review 3000 ''doc1'' ?fb ''alice'' example_collection
                  = (Reply 200 ''Review updated successfully'', ?D)"
    by code_simp
  have absent: "u_rating ?b = JUndefined" and absent2: "u_text ?c = JUndefined"
    by simp_all
  have olds: "r_id ?R = 2" "r_rating ?R = Fin 4" "r_createdAt ?R = 1705708800000"
    by code_simp+
  have olds2: "r_id ?Q = 3" "r_text ?Q = r_text (sample_reviews ! 2)"
    by code_simp+
  note frame = update_changes_only_rating_text_updatedAt
      [where now = 99 and id_param = "''2''" and b = ?b and st = initial_state and r' = ?R and st' = ?S
         and ts = 3000 and rid = "''doc1''" and fb = ?fb and uid = "''alice''"
         and db = example_collection and msg = "''Review updated successfully''" and db' = ?D]
  note frame2 = update_changes_only_rating_text_updatedAt
      [where now = 100 and id_param = "''3''" and b = ?c and st = initial_state and r' = ?Q and st' = ?T,
       THEN conjunct1]
  have mem: "\<exists>i. i < length (reviews initial_state)
          \<and> r_id (reviews initial_state ! i) = 2
          \<and> r_rating (reviews initial_state ! i) = Fin 4
          \<and> r_createdAt (reviews initial_state ! i) = 1705708800000"
    using frame run absent olds by metis
  have mem2: "\<exists>i. i < length (reviews initial_state)
          \<and> r_id (reviews initial_state ! i) = 3
          \<and> r_text (reviews initial_state ! i) = r_text (sample_reviews ! 2)"
    using frame2 run2 absent2 olds2 by metis
  have fs: "\<exists>d. map_of example_collection ''doc1'' = Some d \<and> d_movieId d = JStr ''550''
          \<and> d_userId d = ''alice'' \<and> d_createdAt d = 1000"
    using frame fs_run by auto
  show ?thesis
    using run absent mem run2 absent2 mem2 fs_run fs by blast
qed

section \<open>Sequences of writes\<close>

lemma create_review_outcome:
  "(\<exists>code msg. create_review t1 t2 b st = (Fail code msg, st))
   \<or> (\<exists>s r. c_text b = JStr s \<and> valid_create b st
        \<and> create_review t1 t2 b st = (Reply 201 r, st\<lparr>reviews := reviews st @ [r]\<rparr>)
        \<and> r_id r = next_id (reviews st) \<and> r_text r = trim s
        \<and> r_rating r = parseInt (c_rating b))"
  by (cases "c_text b") (auto simp: create_review_def valid_create_def Let_def)

lemma update_review_state:
  "snd (update_review now id_param b st) = st
   \<or> (\<exists>i. i < length (reviews st)
        \<and> snd (update_review now id_param b st)
            = st\<lparr>reviews := (reviews st)[i := updated_review now b (reviews st ! i)]\<rparr>)"
proof (cases "findIndex (\<lambda>r. num_eq (num (r_id r)) (parse_int_str id_param)) (reviews st)")
  case None
  then show ?thesis by (simp add: update_review_def)
next
  case (Some i)
  then have i: "i < length (reviews st)"
    using findIndex_Some by blast
  have "snd (update_review now id_param b st) = st
        \<or> snd (update_review now id_param b st)
            = st\<lparr>reviews := (reviews st)[i := updated_review now b (reviews st ! i)]\<rparr>"
    using Some by (simp add: update_review_def updated_review_def Let_def split: jsval.splits)
  then show ?thesis using i by blast
qed

lemma updated_review_id: "r_id (updated_review now b r) = r_id r"
  by (simp add: updated_review_def Let_def split: jsval.splits)


lemma delete_review_state:
  "snd (delete_review id_param userId st) = st
   \<or> (\<exists>i. i < length (reviews st)
        \<and> snd (delete_review id_param userId st)
            = st\<lparr>reviews := take i (reviews st) @ drop (Suc i) (reviews st)\<rparr>)"
proof (cases "findIndex (\<lambda>r. num_eq (num (r_id r)) (parse_int_str id_param)) (reviews st)")
  case None
  then show ?thesis by (simp add: delete_review_def)
next
  case (Some i)
  then have "i < length (reviews st)"
    using findIndex_Some by blast
  then show ?thesis
    using Some by (auto simp: delete_review_def)
qed

lemma next_id_greater:
  assumes "r \<in> set rs"
  shows "r_id r < next_id rs"
proof -
  have "r_id r \<le> Max (set (map r_id rs))"
    using assms by (intro Max_ge) auto
  moreover have "0 < length rs" using assms by (cases rs) auto
  ultimately show ?thesis by (simp add: next_id_def)
qed

lemma distinct_map_update:
  assumes "distinct (map f xs)" and "i < length xs" and "f y = f (xs ! i)"
  shows "distinct (map f (xs[i := y]))"
proof -
  have "map f (xs[i := y]) = (map f xs)[i := f (xs ! i)]"
    using assms(3) by (simp add: map_update)
  also have "\<dots> = map f xs"
    using assms(2) by (simp add: list_update_same_conv)
  finally show ?thesis using assms(1) by simp
qed

lemma distinct_map_remove:
  assumes "distinct (map f xs)"
  shows "distinct (map f (take i xs @ drop (Suc i) xs))"
proof -
  have "map f (take i xs @ drop (Suc i) xs) = take i (map f xs) @ drop (Suc i) (map f xs)"
    by (simp add: take_map drop_map)
  moreover have "set (take i (map f xs)) \<inter> set (drop (Suc i) (map f xs)) = {}"
    using assms by (intro set_take_disj_set_drop_if_distinct) auto
  ultimately show ?thesis
    using assms by simp
qed



lemma apply_op_distinct_ids:
  assumes "distinct_ids st"
  shows "distinct_ids (apply_op x st)"
proof (cases x)
  case (Create t1 t2 b)
  from create_review_outcome [of t1 t2 b st] show ?thesis
  proof
    assume "\<exists>code msg. create_review t1 t2 b st = (Fail code msg, st)"
    then show ?thesis using assms Create by auto
  next
    assume "\<exists>s r. c_text b = JStr s \<and> valid_create b st
        \<and> create_review t1 t2 b st = (Reply 201 r, st\<lparr>reviews := reviews st @ [r]\<rparr>)
        \<and> r_id r = next_id (reviews st) \<and> r_text r = trim s
        \<and> r_rating r = parseInt (c_rating b)"
    then obtain r where run: "create_review t1 t2 b st = (Reply 201 r, st\<lparr>reviews := reviews st @ [r]\<rparr>)"
      and new: "r_id r = next_id (reviews st)"
      by blast
    have "r_id r \<notin> r_id ` set (reviews st)"
      using next_id_greater [of _ "reviews st"] new by force
    then show ?thesis
      using assms Create run by (simp add: distinct_ids_def)
  qed
next
  case (Update now id_param b)
  from update_review_state [of now id_param b st] show ?thesis
    using assms Update by (auto simp: distinct_ids_def distinct_map_update updated_review_id)
next
  case (Delete id_param userId)
  from delete_review_state [of id_param userId st] show ?thesis
  proof
    assume "snd (delete_review id_param userId st) = st"
    then show ?thesis using assms Delete by simp
  next
    assume "\<exists>i. i < length (reviews st)
        \<and> snd (delete_review id_param userId st)
            = st\<lparr>reviews := take i (reviews st) @ drop (Suc i) (reviews st)\<rparr>"
    then obtain i where run: "snd (delete_review id_param userId st)
            = st\<lparr>reviews := take i (reviews st) @ drop (Suc i) (reviews st)\<rparr>"
      by blast
    have "distinct (map r_id (take i (reviews st) @ drop (Suc i) (reviews st)))"
      using assms unfolding distinct_ids_def by (rule distinct_map_remove)
    then show ?thesis
      by (simp add: Delete run distinct_ids_def del: map_append)
  qed
qed

lemma run_ops_distinct_ids: "distinct_ids st \<Longrightarrow> distinct_ids (run_ops ops st)"
  by (induction ops arbitrary: st) (auto simp: apply_op_distinct_ids)







section \<open>Identifiers\<close>

lemma create_review_new_id:
  assumes "create_review t1 t2 b st = (Reply 201 r, st')"
  shows "r_id r = next_id (reviews st) \<and> list_all (\<lambda>r0. r_id r0 < r_id r) (reviews st)
         \<and> st' = st\<lparr>reviews := reviews st @ [r]\<rparr>"
proof -
  from create_review_outcome [of t1 t2 b st] assms
  have new: "r_id r = next_id (reviews st)" and st': "st' = st\<lparr>reviews := reviews st @ [r]\<rparr>"
    by auto
  have "r_id r0 < r_id r" if "r0 \<in> set (reviews st)" for r0
    using next_id_greater [OF that] new by simp
  then have "list_all (\<lambda>r0. r_id r0 < r_id r) (reviews st)"
    by (simp add: list_all_iff)
  then show ?thesis using new st' by simp
qed

text \<open>
  Claim C9, as the code has it. The identifier of a new review is one more than the
  greatest identifier stored at that moment (1 when none is stored), hence strictly
  greater than the identifier of every stored review; and through any sequence of create,
  update and delete operations no two stored reviews share an identifier.
\<close>

theorem new_id_above_stored_ids:
  "(create_review tc tu b st = (Reply 201 r, st') \<longrightarrow>
      r_id r = next_id (reviews st)
      \<and> list_all (\<lambda>r0. r_id r0 < r_id r) (reviews st)
      \<and> (distinct_ids st \<longrightarrow> distinct_ids st'))
   \<and> (distinct_ids st \<longrightarrow> distinct_ids (run_ops ops st))"
proof (intro conjI impI)
  assume run: "create_review tc tu b st = (Reply 201 r, st')"
  show "r_id r = next_id (reviews st)" and "list_all (\<lambda>r0. r_id r0 < r_id r) (reviews st)"
    using create_review_new_id [OF run] by blast+
  assume "distinct_ids st"
  then have "distinct_ids (apply_op (Create tc tu b) st)"
    by (rule apply_op_distinct_ids)
  then show "distinct_ids st'"
    using run by simp
next
  assume "distinct_ids st"
  then show "distinct_ids (run_ops ops st)"
    by (rule run_ops_distinct_ids)
qed

theorem new_id_above_stored_ids_witness:
  "create_review 7 8 \<lparr>c_movieId = JNum (Fin 2), c_userId = JStr ''u1'', c_userName = JStr ''Una'',
                       c_rating = JNum (Fin 4), c_text = JStr ''Long, and worth it''\<rparr> initial_state
     = (Reply 201 \<lparr>r_id = 4, r_movieId = Fin 2, r_userId = JStr ''u1'', r_userName = JStr ''Una'',
                   r_rating = Fin 4, r_text = ''Long, and worth it'', r_createdAt = 7, r_updatedAt = 8\<rparr>,
        initial_state\<lparr>reviews := reviews initial_state
           @ [\<lparr>r_id = 4, r_movieId = Fin 2, r_userId = JStr ''u1'', r_userName = JStr ''Una'',
               r_rating = Fin 4, r_text = ''Long, and worth it'', r_createdAt = 7, r_updatedAt = 8\<rparr>]\<rparr>)
   \<and> distinct_ids initial_state
   \<and> list_all (\<lambda>r0. r_id r0 < 4) (reviews initial_state)
   \<and> distinct_ids (initial_state\<lparr>reviews := reviews initial_state
           @ [\<lparr>r_id = 4, r_movieId = Fin 2, r_userId = JStr ''u1'', r_userName = JStr ''Una'',
               r_rating = Fin 4, r_text = ''Long, and worth it'', r_createdAt = 7, r_updatedAt = 8\<rparr>]\<rparr>)
   \<and> distinct_ids (run_ops [Delete ''3'' (JStr ''user789''), Delete ''1'' (JStr ''user123'')] initial_state)"
proof -
  let ?b = "\<lparr>c_movieId = JNum (Fin 2), c_userId = JStr ''u1'', c_userName = JStr ''Una'',
             c_rating = JNum (Fin 4), c_text = JStr ''Long, and worth it''\<rparr>"
  let ?r = "\<lparr>r_id = 4, r_movieId = Fin 2, r_userId = JStr ''u1'', r_userName = JStr ''Una'',
             r_rating = Fin 4, r_text = ''Long, and worth it'', r_createdAt = 7, r_updatedAt = 8\<rparr>"
  let ?st' = "initial_state\<lparr>reviews := reviews initial_state @ [?r]\<rparr>"
  have run: "create_review 7 8 ?b initial_state = (Reply 201 ?r, ?st')"
    by code_simp
  have d: "distinct_ids initial_state"
    by code_simp
  note inst = new_id_above_stored_ids
      [where tc = 7 and tu = 8 and b = ?b and st = initial_state and r = ?r and st' = ?st'
         and ops = "[Delete ''3'' (JStr ''user789''), Delete ''1'' (JStr ''user123'')]"]
  have "list_all (\<lambda>r0. r_id r0 < r_id ?r) (reviews initial_state)" and "distinct_ids ?st'"
    and "distinct_ids (run_ops [Delete ''3'' (JStr ''user789''), Delete ''1'' (JStr ''user123'')] initial_state)"
    using inst run d by blast+
  then show ?thesis
    using run d by simp
qed

text \<open>
  Claim C9 as it is stated does not hold: the identifiers are not drawn from a counter.
  The sample data holds the reviews 1, 2 and 3. Once the author of review 3 has deleted
  it, the next review created, by another author for another movie, is given the
  identifier 3 again.
\<close>

theorem deleted_id_reused_counterexample:
  "map r_id (reviews initial_state) = [1, 2, 3]
   \<and> map r_id (reviews (run_ops [Delete ''3'' (JStr ''user789'')] initial_state)) = [1, 2]
   \<and> map (\<lambda>r. (r_id r, r_userId r))
         (reviews (run_ops [Delete ''3'' (JStr ''user789''),
                            Create 7 8 \<lparr>c_movieId = JNum (Fin 4), c_userId = JStr ''u1'',
                                        c_userName = JStr ''Una'', c_rating = JNum (Fin 4),
                                        c_text = JStr ''Long, and worth it''\<rparr>]
                    initial_state))
       = [(1, JStr ''user123''), (2, JStr ''user456''), (3, JStr ''u1'')]"
  by code_simp

section \<open>Stored bodies\<close>








section \<open>Rating validation\<close>





lemma fs_rating_rejected:
  assumes "z < 1 \<or> 5 < z"
  shows "fc_rating fb = JNum (Fin z) \<Longrightarrow>
           kind_of (fst (fs_create_review new_id ts tc tu fb uid db)) = Some InvalidArgument
           \<and> snd (fs_create_review new_id ts tc tu fb uid db) = db"
    and "fu_rating ub = JNum (Fin z) \<Longrightarrow>
           kind_of (fst (fs_update_review ts rid ub uid db)) = Some InvalidArgument
           \<and> snd (fs_update_review ts rid ub uid db) = db"
  using assms
  by (auto simp: fs_create_review_def fs_update_review_def js_lt_def js_gt_def)





section \<open>Ownership\<close>

text \<open>
  In the Firestore routes the author is \<^verbatim>\<open>req.user.uid\<close>, the uid of the verified
  token, and the request body has no part in the comparison: an update or a delete of a
  stored review by any other uid fails and leaves the collection as it was. The update
  checks the body first, so its failure is the 403 once the body is valid.
\<close>

lemma fs_write_by_other_user_fails:
  assumes "map_of db rid = Some d" and "d_userId d \<noteq> uid"
  shows "\<exists>code msg. fs_update_review ts rid b uid db = (Fail code msg, db)"
    and "truthy (fu_rating b) \<and> truthy (fu_text b)
         \<and> \<not> js_lt (fu_rating b) (Fin 1) \<and> \<not> js_gt (fu_rating b) (Fin 5) \<Longrightarrow>
         fs_update_review ts rid b uid db = (Fail 403 ''You can only update your own reviews'', db)"
    and "fs_delete_review rid uid db = (Fail 403 ''You can only delete your own reviews'', db)"
  using assms by (auto simp: fs_update_review_def fs_delete_review_def)

lemma verifyToken_runs_with_verified_uid:
  "verifyToken verifyIdToken authorization next db = (Reply code body, db') \<Longrightarrow>
   \<exists>token uid. bearer_token authorization = Some token \<and> verifyIdToken token = Some uid
      \<and> next uid db = (Reply code body, db')"
  by (auto simp: verifyToken_def split: option.splits if_splits)

text \<open>
  Claim C2 on the in-memory server, at a request anyone can send. The handlers of
  \<^verbatim>\<open>PUT /api/reviews/:id\<close> and \<^verbatim>\<open>DELETE /api/reviews/:id\<close> have no verified identity
  among their inputs: the owner is compared with the \<open>userId\<close> field of the request body.
  A body that names the author of review 1 of the sample data rewrites that review, and a
  body that names the author of review 2 deletes it.
\<close>

theorem body_user_id_decides_ownership:
  "update_review 9 ''1'' \<lparr>u_rating = JNum (Fin 1), u_text = JStr ''Overrated'',
                          u_userId = JStr ''user123''\<rparr> initial_state
     = (Reply 200 ((reviews initial_state ! 0)\<lparr>r_rating := Fin 1, r_text := ''Overrated'', r_updatedAt := 9\<rparr>),
        initial_state\<lparr>reviews := (reviews initial_state)
           [0 := (reviews initial_state ! 0)\<lparr>r_rating := Fin 1, r_text := ''Overrated'', r_updatedAt := 9\<rparr>]\<rparr>)
   \<and> delete_review ''2'' (JStr ''user456'') initial_state
     = (Reply 200 ''Review deleted successfully'',
        initial_state\<lparr>reviews := [reviews initial_state ! 0, reviews initial_state ! 2]\<rparr>)"
  by code_simp

section \<open>Reads and the stored collections\<close>

lemma set_insort_cmp: "set (insort_cmp cmp x ys) = insert x (set ys)"
  by (induction ys) auto

lemma set_js_sort: "set (js_sort cmp xs) = set xs"
  by (induction xs) (auto simp: js_sort_def set_insort_cmp)

text \<open>
  What the listing keeps: the reviews always, the same movie records always, and the
  whole state whenever a search or a genre filter ran.
\<close>

lemma list_movies_keeps:
  shows "reviews (snd (list_movies localeCompare q st)) = reviews st"
    and "set (movies (snd (list_movies localeCompare q st))) = set (movies st)"
    and "(q_search q \<noteq> None \<and> q_search q \<noteq> Some []) \<or> (q_genre q \<noteq> None \<and> q_genre q \<noteq> Some []) \<Longrightarrow>
         snd (list_movies localeCompare q st) = st"
  by (auto simp: list_movies_def Let_def set_js_sort split: option.splits)

text \<open>
  Claim C6 at a listing with neither search nor genre. The array the handler sorts is then
  the stored array itself, and \<^verbatim>\<open>sort\<close> works in place: after
  \<^verbatim>\<open>GET /api/movies?sortBy=year\<close> on the sample data the stored movies stand in the
  order 3, 1, 4, 5, 2 instead of 1, 2, 3, 4, 5.
\<close>

theorem list_movies_sorts_stored_movies:
  "map m_id (movies initial_state) = [1, 2, 3, 4, 5]
   \<and> map m_id (movies (snd (list_movies localeCompare
         \<lparr>q_page = None, q_limit = None, q_search = None, q_genre = None, q_sortBy = Some ''year''\<rparr>
         initial_state))) = [3, 1, 4, 5, 2]"
  by code_simp

section \<open>Reviews whose author cannot be looked up\<close>

text \<open>
  Claim C10. In \<^verbatim>\<open>GET /movie/:movieId\<close> and \<^verbatim>\<open>GET /:reviewId\<close> the answer does not
  depend on the user directory except in the enrichment fields. Whatever two directories
  \<open>getUser\<close> and \<open>getUser'\<close> answer (one may fail where the other succeeds), the two
  responses have the same status and hold the same reviews, in the same order, with the
  same stored fields: for the listing these are exactly the documents the query returned.
  A review carries the enrichment fields exactly when the lookup of its author succeeds.
\<close>

theorem reviews_returned_whatever_lookups_fail:
  "map_response (map (\<lambda>v. (v_id v, v_doc v)))
       (fs_reviews_for_movie getUser run_query movieId limit_param offset_param db)
     = map_response (map (\<lambda>v. (v_id v, v_doc v)))
         (fs_reviews_for_movie getUser' run_query movieId limit_param offset_param db)
   \<and> map_response (map (\<lambda>v. (v_id v, v_doc v)))
         (fs_reviews_for_movie getUser run_query movieId limit_param offset_param db)
     = (case run_query \<lparr>where_field = ''movieId'', where_value = JStr movieId,
                         query_limit = parseInt (param_or limit_param (JNum (Fin 50))),
                         query_offset = parseInt (param_or offset_param (JNum (Fin 0)))\<rparr> db of
          None \<Rightarrow> Fail 500 ''Failed to fetch reviews''
        | Some snapshot \<Rightarrow> Reply 200 snapshot)
   \<and> map_response (map v_user)
         (fs_reviews_for_movie getUser run_query movieId limit_param offset_param db)
     = map_response (map (\<lambda>v. map_option details_of (getUser (d_userId (v_doc v)))))
         (fs_reviews_for_movie getUser run_query movieId limit_param offset_param db)
   \<and> map_response (\<lambda>v. (v_id v, v_doc v)) (fs_get_review getUser reviewId db)
     = map_response (\<lambda>v. (v_id v, v_doc v)) (fs_get_review getUser' reviewId db)
   \<and> map_response (\<lambda>v. (v_id v, v_doc v)) (fs_get_review getUser reviewId db)
     = (case map_of db reviewId of
          None \<Rightarrow> Fail 404 ''Review not found''
        | Some reviewData \<Rightarrow> Reply 200 (reviewId, reviewData))
   \<and> map_response v_user (fs_get_review getUser reviewId db)
     = map_response (\<lambda>v. map_option details_of (getUser (d_userId (v_doc v))))
         (fs_get_review getUser reviewId db)"
proof -
  have view: "(v_id (with_user_details g doc), v_doc (with_user_details g doc)) = doc"
    and user: "v_user (with_user_details g doc)
                 = map_option details_of (g (d_userId (v_doc (with_user_details g doc))))"
    for g doc
    by (simp_all add: with_user_details_def split: option.splits)
  show ?thesis
    by (simp add: fs_reviews_for_movie_def fs_get_review_def Let_def comp_def view user
             split: option.splits)
qed


section \<open>Rating statistics of a movie\<close>






lemma toFixed1_reads_back:
  assumes "\<bar>x\<bar> < 10 ^ 21"
  shows "\<exists>s. toFixed1 (Fin x) = Some s \<and> str_to_number s = Fin (round1 x)"
  using assms by (simp add: round1_def read_one_decimal read_minus_one_decimal)



end
